theory Spec2Isabelle
  imports Complex_Main "HOL-Library.Product_Lexorder" "HOL-Library.Sublist" "HOL-Library.Multiset"
begin

section \<open>Sheet-music scanner: the identification and ranking pipeline of main.py\<close>

text \<open>
  The development follows \<^verbatim>\<open>src/main.py\<close> (class \<^verbatim>\<open>AccurateMusicScannerAPI\<close>).
  Python strings are modelled as \<^typ>\<open>string\<close> restricted to ASCII, Python exceptions as
  values of \<open>exn\<close> in a sum type (\<open>Inl\<close> is the raised exception), dataclasses as
  records, and the answers of the remote services (OCR, language model, video platform)
  as parameters collected in a record of the environment. The float scores are modelled
  as \<^typ>\<open>real\<close>: the code only stores and compares them.
\<close>

subsection \<open>Exceptions\<close>

datatype exn =
    Exception string
  | ValueError string
  | TypeError string
  | KeyError string
  | IndexError string
  | RequestException string

fun str_exn :: "exn \<Rightarrow> string" where
  "str_exn (Exception m) = m"
| "str_exn (ValueError m) = m"
| "str_exn (TypeError m) = m"
| "str_exn (KeyError m) = m"
| "str_exn (IndexError m) = m"
| "str_exn (RequestException m) = m"

subsection \<open>String primitives of Python used by the code\<close>

text \<open>\<^verbatim>\<open>str.strip()\<close>: the ASCII characters for which \<^verbatim>\<open>str.isspace\<close> holds.\<close>

definition is_space :: "char \<Rightarrow> bool" where
  "is_space c = (c \<in> set [CHR 0x09, CHR 0x0A, CHR 0x0B, CHR 0x0C, CHR 0x0D,
                           CHR 0x1C, CHR 0x1D, CHR 0x1E, CHR 0x1F, CHR 0x20])"

definition py_strip :: "string \<Rightarrow> string" where
  "py_strip s = rev (dropWhile is_space (rev (dropWhile is_space s)))"

text \<open>\<^verbatim>\<open>str.lower()\<close> on ASCII.\<close>

definition lower_char :: "char \<Rightarrow> char" where
  "lower_char c =
     (case map_of (zip ''ABCDEFGHIJKLMNOPQRSTUVWXYZ'' ''abcdefghijklmnopqrstuvwxyz'') c of
        Some d \<Rightarrow> d
      | None \<Rightarrow> c)"

definition py_lower :: "string \<Rightarrow> string" where
  "py_lower s = map lower_char s"

text \<open>\<^verbatim>\<open>sub in s\<close> for strings: \<open>sub\<close> occurs as a contiguous block of \<open>s\<close>.\<close>

fun py_in :: "string \<Rightarrow> string \<Rightarrow> bool" where
  "py_in sub [] = (sub = [])"
| "py_in sub (c # cs) = (prefix sub (c # cs) \<or> py_in sub cs)"

text \<open>
  \<^verbatim>\<open>s.split(sep)\<close> for a non-empty separator: the pieces between the
  non-overlapping occurrences of \<open>sep\<close>, found from the left.
  \<open>split_first\<close> cuts at the first occurrence.
\<close>

fun split_first :: "string \<Rightarrow> string \<Rightarrow> (string \<times> string) option" where
  "split_first sep [] = None"
| "split_first sep (c # cs) =
     (if prefix sep (c # cs) then Some ([], drop (length sep) (c # cs))
      else (case split_first sep cs of
              None \<Rightarrow> None
            | Some (b, a) \<Rightarrow> Some (c # b, a)))"

lemma split_first_shorter:
  "sep \<noteq> [] \<Longrightarrow> split_first sep s = Some (b, a) \<Longrightarrow> length a < length s"
proof (induction s arbitrary: b a)
  case Nil
  then show ?case by simp
next
  case (Cons c cs)
  show ?case
  proof (cases "prefix sep (c # cs)")
    case True
    with Cons.prems show ?thesis by auto
  next
    case False
    with Cons.prems obtain b' where "split_first sep cs = Some (b', a)"
      by (auto split: option.splits)
    with Cons.IH [OF Cons.prems(1)] show ?thesis by fastforce
  qed
qed

function py_split :: "string \<Rightarrow> string \<Rightarrow> string list" where
  "py_split sep s =
     (if sep = [] then [s]
      else (case split_first sep s of
              None \<Rightarrow> [s]
            | Some (b, a) \<Rightarrow> b # py_split sep a))"
  by pat_completeness auto
termination
  by (relation "measure (\<lambda>(sep, s). length s)") (auto dest: split_first_shorter)

text \<open>\<^verbatim>\<open>xs[i]\<close> for a non-negative index: IndexError out of range.\<close>

definition py_index :: "'a list \<Rightarrow> nat \<Rightarrow> exn + 'a" where
  "py_index xs i = (if i < length xs then Inr (xs ! i) else Inl (IndexError ''list index out of range''))"

text \<open>\<^verbatim>\<open>s.find(c)\<close> and \<^verbatim>\<open>s.rfind(c)\<close> for a single character: the index, or -1.\<close>

fun py_find :: "string \<Rightarrow> char \<Rightarrow> int" where
  "py_find [] ch = -1"
| "py_find (c # cs) ch =
     (if c = ch then 0 else (let r = py_find cs ch in if r = -1 then -1 else r + 1))"

definition py_rfind :: "string \<Rightarrow> char \<Rightarrow> int" where
  "py_rfind s ch =
     (let r = py_find (rev s) ch in if r = -1 then -1 else int (length s) - 1 - r)"

text \<open>\<^verbatim>\<open>s[a:b]\<close> for indices \<open>0 \<le> a\<close>, \<open>0 \<le> b\<close>.\<close>

definition py_slice :: "'a list \<Rightarrow> nat \<Rightarrow> nat \<Rightarrow> 'a list" where
  "py_slice s a b = take (b - a) (drop a s)"

text \<open>Decimal rendering of integers: \<^verbatim>\<open>str(n)\<close> and the format \<^verbatim>\<open>{n:02d}\<close>.\<close>

definition digit_char :: "nat \<Rightarrow> char" where
  "digit_char d = ''0123456789'' ! (d mod 10)"

function str_nat :: "nat \<Rightarrow> string" where
  "str_nat n = (if n < 10 then [digit_char n] else str_nat (n div 10) @ [digit_char (n mod 10)])"
  by pat_completeness auto
termination
  by (relation "measure id") auto

definition str_int :: "int \<Rightarrow> string" where
  "str_int i = (if i < 0 then CHR ''-'' # str_nat (nat (- i)) else str_nat (nat i))"

definition fmt_02d :: "int \<Rightarrow> string" where
  "fmt_02d i = (let s = str_int i in replicate (2 - length s) CHR ''0'' @ s)"

subsection \<open>Embedded JSON object extraction\<close>

text \<open>
  The first half of \<^verbatim>\<open>extract_json_from_content\<close> (and of
  \<^verbatim>\<open>extract_json_array_from_content\<close>): strip, then keep the inside of a leading fence.
\<close>

definition strip_fence :: "string \<Rightarrow> exn + string" where
  "strip_fence content0 =
     (let content = py_strip content0 in
      if py_in ''```json'' content then
        (case py_index (py_split ''```json'' content) 1 of
           Inl e \<Rightarrow> Inl e
         | Inr part \<Rightarrow> py_index (py_split ''```'' part) 0)
      else if py_in ''```'' content then
        py_index (py_split ''```'' content) 1
      else Inr content)"

text \<open>
  The loop \<^verbatim>\<open>for i, char in enumerate(content[start:])\<close>: the arguments are the
  characters still to visit, \<open>start\<close>, the index \<open>i\<close>, \<open>brace_count\<close> and \<open>endp\<close>
  (the variable \<^verbatim>\<open>end\<close>); the value is \<open>endp\<close> when the loop is left.
\<close>

fun brace_loop :: "string \<Rightarrow> nat \<Rightarrow> nat \<Rightarrow> int \<Rightarrow> nat \<Rightarrow> nat" where
  "brace_loop [] start i brace_count endp = endp"
| "brace_loop (char # rest) start i brace_count endp =
     (if char = CHR ''{'' then brace_loop rest start (i + 1) (brace_count + 1) endp
      else if char = CHR ''}'' then
        (if brace_count - 1 = 0 then start + i + 1
         else brace_loop rest start (i + 1) (brace_count - 1) endp)
      else brace_loop rest start (i + 1) brace_count endp)"

definition scan_object :: "string \<Rightarrow> exn + string" where
  "scan_object content =
     (let start = py_find content CHR ''{'' in
      if start = -1 then Inl (Exception ''No JSON object found'')
      else
        (let endp = brace_loop (drop (nat start) content) (nat start) 0 0 (nat start)
         in Inr (py_slice content (nat start) endp)))"

definition extract_json_from_content :: "string \<Rightarrow> exn + string" where
  "extract_json_from_content content =
     (case strip_fence content of
        Inl e \<Rightarrow> Inl e
      | Inr c \<Rightarrow> scan_object c)"

text \<open>
  \<^verbatim>\<open>extract_json_array_from_content\<close>: the same fence handling, then the span from the
  first \<open>[\<close> to the last \<open>]\<close>.
\<close>

definition extract_json_array_from_content :: "string \<Rightarrow> exn + string" where
  "extract_json_array_from_content content =
     (case strip_fence content of
        Inl e \<Rightarrow> Inl e
      | Inr c \<Rightarrow>
          (let start = py_find c CHR ''[''; endp = py_rfind c CHR '']'' in
           if start \<noteq> -1 \<and> endp \<noteq> -1 \<and> endp > start
           then Inr (py_slice c (nat start) (nat (endp + 1)))
           else Inl (Exception ''No JSON array found in content'')))"

subsection \<open>Data model\<close>

record PieceIdentification =
  title :: string
  composer :: string
  scene_movement :: string
  confidence :: string
  reasoning :: string

text \<open>The field \<^verbatim>\<open>title\<close> of \<^verbatim>\<open>VideoResult\<close> is \<open>video_title\<close> here.\<close>

record VideoResult =
  video_id :: string
  video_title :: string
  channel :: string
  video_url :: string
  views :: int
  likes :: int
  duration :: string
  duration_seconds :: int
  search_strategy :: string
  title_match_score :: real
  composer_match_score :: real
  scene_match_score :: real
  duration_match_score :: real
  overall_accuracy_score :: real

text \<open>
  The dictionary returned by the scan. Each entry of its \<^verbatim>\<open>videos\<close> list carries the
  fourteen fields of a \<^verbatim>\<open>VideoResult\<close> under other keys, so the list is kept as it is.
\<close>

record scan_response =
  piece_identification :: PieceIdentification
  videos :: "VideoResult list"

definition create_error_response :: "string \<Rightarrow> scan_response" where
  "create_error_response error_message =
     \<lparr> piece_identification =
         \<lparr> title = [], composer = [], scene_movement = [],
           confidence = ''low'', reasoning = error_message \<rparr>,
       videos = [] \<rparr>"

subsection \<open>The remote services\<close>

text \<open>
  A search answer is a transport failure (\<^verbatim>\<open>requests.exceptions.RequestException\<close>)
  or a status with the items of the parsed body; an item is the
  \<^verbatim>\<open>item['id']['videoId']\<close> it carries, if any.
\<close>

type_synonym search_item = "string option"

datatype search_response =
    SearchTransportError string
  | SearchStatus nat "search_item list"

text \<open>
  An entry of \<^verbatim>\<open>statistics\<close>: absent, a decimal number, or something \<^verbatim>\<open>int()\<close>
  rejects with ValueError.
\<close>

datatype count_field = Absent | Numeric int | NonNumeric

record snippet =
  sn_title :: "string option"
  sn_channelTitle :: "string option"

record statistics =
  st_viewCount :: count_field
  st_likeCount :: count_field

record video_item =
  vi_id :: "string option"
  vi_snippet :: "snippet option"
  vi_statistics :: "statistics option"
  vi_contentDetails :: "string option option"

datatype details_response =
    DetailsTransportError string
  | DetailsStatus nat "video_item list"

text \<open>
  An element of the scoring array: a key that is missing is \<open>None\<close>, and reading it
  raises KeyError.
\<close>

record score_item =
  si_video_id :: "string option"
  si_title_match_score :: "real option"
  si_composer_match_score :: "real option"
  si_scene_match_score :: "real option"
  si_duration_match_score :: "real option"
  si_overall_accuracy_score :: "real option"

text \<open>
  Everything outside the process: \<open>extract_text_from_base64\<close> (image decoding and the OCR
  request), the two language-model requests (the reply text, or the exception of the
  request), \<^verbatim>\<open>json.loads\<close> on an object of string values and on an array of score
  items, the configured \<^verbatim>\<open>YOUTUBE_API_KEYS\<close>, the two video platform requests as
  functions of the request, and \<^verbatim>\<open>isodate.parse_duration\<close> followed by
  \<^verbatim>\<open>int(total_seconds())\<close>.
\<close>

record services =
  extract_text_from_base64 :: "string \<Rightarrow> exn + string"
  groq_identify :: "string \<Rightarrow> exn + string"
  json_loads_object :: "string \<Rightarrow> exn + (string \<times> string) list"
  YOUTUBE_API_KEYS :: "string list"
  youtube_search :: "string \<Rightarrow> string \<Rightarrow> search_response"
  youtube_videos :: "string list \<Rightarrow> string \<Rightarrow> details_response"
  isodate_parse_duration :: "string \<Rightarrow> exn + int"
  groq_score :: "VideoResult list \<Rightarrow> PieceIdentification \<Rightarrow> string \<Rightarrow> exn + string"
  json_loads_array :: "string \<Rightarrow> exn + score_item list"

subsection \<open>Instrument normalisation\<close>

definition SUPPORTED_INSTRUMENTS :: "string list" where
  "SUPPORTED_INSTRUMENTS =
     [''alto saxophone'', ''baritone saxophone'', ''tenor saxophone'', ''soprano saxophone'',
      ''bass clarinet'', ''clarinet'', ''bassoon'', ''contrabassoon'',
      ''cello'', ''double bass'', ''viola'', ''violin'',
      ''euphonium'', ''tuba'', ''trombone'', ''trumpet'', ''french horn'',
      ''flute'', ''piccolo'', ''oboe'', ''english horn'',
      ''piano'', ''harp'', ''percussion'', ''timpani'',
      ''guitar'', ''electric guitar'', ''bass guitar'']"

definition validate_instrument :: "string \<Rightarrow> string" where
  "validate_instrument instrument =
     (if instrument = [] then ''clarinet''
      else
        (let instrument_lower = py_strip (py_lower instrument) in
         if instrument_lower \<in> set SUPPORTED_INSTRUMENTS then instrument_lower
         else
           (case filter (\<lambda>supported. py_in instrument_lower supported \<or> py_in supported instrument_lower)
                        SUPPORTED_INSTRUMENTS of
              supported # _ \<Rightarrow> supported
            | [] \<Rightarrow> instrument_lower)))"

subsection \<open>Piece identification\<close>

definition dict_get :: "(string \<times> string) list \<Rightarrow> string \<Rightarrow> string \<Rightarrow> string" where
  "dict_get d k dflt = (case map_of d k of None \<Rightarrow> dflt | Some v \<Rightarrow> v)"

text \<open>
  \<^verbatim>\<open>PieceIdentification(**identification_data)\<close>: TypeError unless the keys are exactly
  the five fields. (The texts of exceptions raised by the runtime are not reproduced.)
\<close>

definition PieceIdentification_init :: "(string \<times> string) list \<Rightarrow> exn + PieceIdentification" where
  "PieceIdentification_init d =
     (if set (map fst d) = set [''title'', ''composer'', ''scene_movement'', ''confidence'', ''reasoning'']
      then Inr \<lparr> title = dict_get d ''title'' [],
                 composer = dict_get d ''composer'' [],
                 scene_movement = dict_get d ''scene_movement'' [],
                 confidence = dict_get d ''confidence'' [],
                 reasoning = dict_get d ''reasoning'' [] \<rparr>
      else Inl (TypeError ''__init__() got unexpected or missing keyword arguments''))"

definition identify_piece_simple :: "services \<Rightarrow> string \<Rightarrow> exn + PieceIdentification" where
  "identify_piece_simple env extracted_text =
     (case groq_identify env extracted_text of
        Inl e \<Rightarrow> Inl e
      | Inr content \<Rightarrow>
          (case extract_json_from_content content of
             Inl e \<Rightarrow> Inl e
           | Inr json_str \<Rightarrow>
               (case json_loads_object env json_str of
                  Inl e \<Rightarrow> Inl e
                | Inr identification_data \<Rightarrow>
                    if py_lower (py_strip (dict_get identification_data ''composer'' []))
                         \<in> set [''unknown'', []]
                    then Inl (ValueError ''Please show clearer composer'')
                    else PieceIdentification_init identification_data)))"

subsection \<open>Search strategies\<close>

definition create_simple_search_terms :: "PieceIdentification \<Rightarrow> string \<Rightarrow> (string \<times> string) list" where
  "create_simple_search_terms piece_id instrument =
     (let search_terms = [];
          basic_search = title piece_id @ '' '' @ composer piece_id @ '' '' @ instrument;
          search_terms = search_terms @ [(basic_search, ''basic'')];
          search_terms =
            (if scene_movement piece_id \<noteq> []
             then search_terms @
                    [(title piece_id @ '' '' @ composer piece_id @ '' '' @ instrument @ '' ''
                        @ scene_movement piece_id, ''scene'')]
             else search_terms);
          ensemble_search = title piece_id @ '' '' @ composer piece_id;
          search_terms = search_terms @ [(ensemble_search, ''ensemble'')];
          search_terms =
            (if scene_movement piece_id \<noteq> []
             then search_terms @
                    [(title piece_id @ '' '' @ composer piece_id @ '' '' @ scene_movement piece_id,
                      ''ensemble_scene'')]
             else search_terms)
      in search_terms)"

subsection \<open>Durations\<close>

definition parse_youtube_duration :: "services \<Rightarrow> string \<Rightarrow> int" where
  "parse_youtube_duration env duration_iso =
     (case isodate_parse_duration env duration_iso of
        Inr seconds \<Rightarrow> seconds
      | Inl e \<Rightarrow> 0)"

definition format_duration :: "int \<Rightarrow> string" where
  "format_duration seconds =
     (let minutes = seconds div 60;
          remaining_seconds = seconds mod 60
      in if minutes \<ge> 60 then
           (let hours = minutes div 60;
                remaining_minutes = minutes mod 60
            in str_int hours @ '':'' @ fmt_02d remaining_minutes @ '':'' @ fmt_02d remaining_seconds)
         else str_int minutes @ '':'' @ fmt_02d remaining_seconds)"

subsection \<open>Video discovery\<close>

text \<open>
  The credential rotator: the state is \<^verbatim>\<open>current_youtube_key_index\<close>, threaded
  through every function that calls it.
\<close>

definition get_next_youtube_api_key :: "string list \<Rightarrow> nat \<Rightarrow> (exn + string option) \<times> nat" where
  "get_next_youtube_api_key keys current_youtube_key_index =
     (if keys = [] then (Inr None, current_youtube_key_index)
      else if current_youtube_key_index < length keys
      then (Inr (Some (keys ! current_youtube_key_index)),
            (current_youtube_key_index + 1) mod length keys)
      else (Inl (IndexError ''list index out of range''), current_youtube_key_index))"

definition validate_video_id :: "string \<Rightarrow> bool" where
  "validate_video_id vid =
     (if vid = [] \<or> length vid \<noteq> 11 then False
      else (\<forall>c \<in> set vid.
              c \<in> set ''ABCDEFGHIJKLMNOPQRSTUVWXYZabcdefghijklmnopqrstuvwxyz0123456789_-''))"

definition parse_video_item :: "services \<Rightarrow> video_item \<Rightarrow> string \<Rightarrow> VideoResult option" where
  "parse_video_item env item strategy =
     (case (vi_id item, vi_snippet item, vi_statistics item, vi_contentDetails item) of
        (Some vid, Some snip, Some stats, Some content_details) \<Rightarrow>
          (case (sn_title snip, sn_channelTitle snip, content_details) of
             (Some ttl, Some chan, Some duration_iso) \<Rightarrow>
               (case (st_viewCount stats, st_likeCount stats) of
                  (NonNumeric, _) \<Rightarrow> None
                | (_, NonNumeric) \<Rightarrow> None
                | (vc, lc) \<Rightarrow>
                    (let nviews = (case vc of Numeric n \<Rightarrow> n | _ \<Rightarrow> 0);
                         nlikes = (case lc of Numeric n \<Rightarrow> n | _ \<Rightarrow> 0);
                         secs = parse_youtube_duration env duration_iso;
                         duration_text = format_duration secs
                     in Some \<lparr> video_id = vid,
                                video_title = ttl,
                                channel = chan,
                                video_url = ''https://www.youtube.com/watch?v='' @ vid,
                                views = nviews,
                                likes = nlikes,
                                duration = duration_text,
                                duration_seconds = secs,
                                search_strategy = strategy,
                                title_match_score = 0,
                                composer_match_score = 0,
                                scene_match_score = 0,
                                duration_match_score = 0,
                                overall_accuracy_score = 0 \<rparr>))
           | _ \<Rightarrow> None)
      | _ \<Rightarrow> None)"

definition get_single_video_details ::
  "services \<Rightarrow> string \<Rightarrow> string \<Rightarrow> string \<Rightarrow> VideoResult list" where
  "get_single_video_details env vid strategy api_key =
     (case youtube_videos env [vid] api_key of
        DetailsTransportError m \<Rightarrow> []
      | DetailsStatus code items \<Rightarrow>
          if code = 200 then
            (case items of
               [] \<Rightarrow> []
             | item # _ \<Rightarrow>
                 (case parse_video_item env item strategy of
                    Some video \<Rightarrow> [video]
                  | None \<Rightarrow> []))
          else [])"

text \<open>\<^verbatim>\<open>range(0, n, step)\<close>.\<close>

definition py_range_step :: "nat \<Rightarrow> nat \<Rightarrow> nat list" where
  "py_range_step n step = map (\<lambda>k. k * step) [0..<(n + step - 1) div step]"

text \<open>The body of the batch loop of \<^verbatim>\<open>get_video_details\<close>, for the start indices left.\<close>

fun details_batches ::
  "services \<Rightarrow> string list \<Rightarrow> string \<Rightarrow> string \<Rightarrow> nat list \<Rightarrow> VideoResult list \<Rightarrow> VideoResult list" where
  "details_batches env video_ids strategy api_key [] all_videos = all_videos"
| "details_batches env video_ids strategy api_key (i # rest) all_videos =
     (let batch_ids = py_slice video_ids i (i + 5) in
      case youtube_videos env batch_ids api_key of
        DetailsTransportError m \<Rightarrow> details_batches env video_ids strategy api_key rest all_videos
      | DetailsStatus code items \<Rightarrow>
          if code = 200 then
            details_batches env video_ids strategy api_key rest
              (all_videos @ List.map_filter (\<lambda>item. parse_video_item env item strategy) items)
          else if code = 400 then
            details_batches env video_ids strategy api_key rest
              (all_videos @
                 concat (map (\<lambda>vid. get_single_video_details env vid strategy api_key) batch_ids))
          else details_batches env video_ids strategy api_key rest all_videos)"

definition get_video_details ::
  "services \<Rightarrow> string list \<Rightarrow> string \<Rightarrow> string \<Rightarrow> VideoResult list" where
  "get_video_details env video_ids strategy api_key =
     details_batches env video_ids strategy api_key (py_range_step (length video_ids) 5) []"

text \<open>
  The loop \<^verbatim>\<open>for attempt in range(len(YOUTUBE_API_KEYS))\<close> of
  \<^verbatim>\<open>search_youtube_single\<close>, for the attempts left; the value is the result or the
  exception, with the rotator's index.
\<close>

fun search_attempts ::
  "services \<Rightarrow> string \<Rightarrow> string \<Rightarrow> nat list \<Rightarrow> nat \<Rightarrow> (exn + VideoResult list) \<times> nat" where
  "search_attempts env query strategy [] idx = (Inr [], idx)"
| "search_attempts env query strategy (attempt # rest) idx =
     (case get_next_youtube_api_key (YOUTUBE_API_KEYS env) idx of
        (Inl e, idx') \<Rightarrow> (Inl e, idx')
      | (Inr None, idx') \<Rightarrow> (Inl (Exception ''No YouTube API keys available''), idx')
      | (Inr (Some api_key), idx') \<Rightarrow>
          if api_key = [] then (Inl (Exception ''No YouTube API keys available''), idx')
          else
            (case youtube_search env query api_key of
               SearchStatus code items \<Rightarrow>
                 if code = 200 then
                   (let valid_video_ids =
                          filter validate_video_id (List.map_filter (\<lambda>item. item) items)
                    in if valid_video_ids \<noteq> []
                       then (Inr (get_video_details env valid_video_ids strategy api_key), idx')
                       else (Inr [], idx'))
                 else if code \<in> set [403, 429] then search_attempts env query strategy rest idx'
                 else search_attempts env query strategy rest idx'
             | SearchTransportError m \<Rightarrow>
                 if attempt = length (YOUTUBE_API_KEYS env) - 1
                 then (Inl (Exception (''All YouTube API keys failed: '' @ m)), idx')
                 else search_attempts env query strategy rest idx'))"

definition search_youtube_single ::
  "services \<Rightarrow> string \<Rightarrow> string \<Rightarrow> nat \<Rightarrow> (exn + VideoResult list) \<times> nat" where
  "search_youtube_single env query strategy idx =
     search_attempts env query strategy [0..<length (YOUTUBE_API_KEYS env)] idx"

text \<open>
  \<^verbatim>\<open>all_videos\<close> is a dictionary, which keeps its keys in insertion order: an
  association list that a new key is appended to.
\<close>

fun add_videos :: "VideoResult list \<Rightarrow> (string \<times> VideoResult) list \<Rightarrow> (string \<times> VideoResult) list" where
  "add_videos [] all_videos = all_videos"
| "add_videos (video # rest) all_videos =
     add_videos rest
       (if video_id video \<notin> set (map fst all_videos)
        then all_videos @ [(video_id video, video)]
        else all_videos)"

fun search_strategies ::
  "services \<Rightarrow> (string \<times> string) list \<Rightarrow> (string \<times> VideoResult) list \<Rightarrow> nat
     \<Rightarrow> (string \<times> VideoResult) list \<times> nat" where
  "search_strategies env [] all_videos idx = (all_videos, idx)"
| "search_strategies env ((term, strategy) # rest) all_videos idx =
     (case search_youtube_single env term strategy idx of
        (Inr found, idx') \<Rightarrow> search_strategies env rest (add_videos found all_videos) idx'
      | (Inl e, idx') \<Rightarrow> search_strategies env rest all_videos idx')"

definition search_youtube_simple ::
  "services \<Rightarrow> (string \<times> string) list \<Rightarrow> nat \<Rightarrow> VideoResult list \<times> nat" where
  "search_youtube_simple env search_terms idx =
     (case search_strategies env search_terms [] idx of
        (all_videos, idx') \<Rightarrow> (map snd all_videos, idx'))"

subsection \<open>Accuracy ranking\<close>

text \<open>
  \<^verbatim>\<open>sorted(xs, key=k, reverse=True)\<close>: descending by key, and stable (elements with
  equal keys keep their order).
\<close>

definition py_sorted_reverse :: "('a \<Rightarrow> 'k::linorder) \<Rightarrow> 'a list \<Rightarrow> 'a list" where
  "py_sorted_reverse k xs = rev (sort_key k (rev xs))"

text \<open>
  \<^verbatim>\<open>video_dict = {video.video_id: video for video in videos}\<close>. The values are the
  objects of the list, which the loop mutates in place: an object is named by its
  position in \<open>videos\<close>, and a later video with the same identifier replaces an earlier one.
\<close>

definition video_dict :: "VideoResult list \<Rightarrow> (string \<rightharpoonup> nat)" where
  "video_dict vs = fold (\<lambda>(i, video) d. d(video_id video \<mapsto> i)) (enumerate 0 vs) Map.empty"

text \<open>
  The five assignments of the loop body, in their order: a missing key raises KeyError
  and leaves the assignments made before it in place.
\<close>

definition assign_scores :: "VideoResult \<Rightarrow> score_item \<Rightarrow> VideoResult \<times> exn option" where
  "assign_scores video item =
     (case si_title_match_score item of
        None \<Rightarrow> (video, Some (KeyError ''title_match_score''))
      | Some t \<Rightarrow>
     (let video = video\<lparr>title_match_score := t\<rparr> in
      case si_composer_match_score item of
        None \<Rightarrow> (video, Some (KeyError ''composer_match_score''))
      | Some c \<Rightarrow>
     (let video = video\<lparr>composer_match_score := c\<rparr> in
      case si_scene_match_score item of
        None \<Rightarrow> (video, Some (KeyError ''scene_match_score''))
      | Some s \<Rightarrow>
     (let video = video\<lparr>scene_match_score := s\<rparr> in
      case si_duration_match_score item of
        None \<Rightarrow> (video, Some (KeyError ''duration_match_score''))
      | Some d \<Rightarrow>
     (let video = video\<lparr>duration_match_score := d\<rparr> in
      case si_overall_accuracy_score item of
        None \<Rightarrow> (video, Some (KeyError ''overall_accuracy_score''))
      | Some ov \<Rightarrow> (video\<lparr>overall_accuracy_score := ov\<rparr>, None))))))"

fun apply_scores ::
  "score_item list \<Rightarrow> (string \<rightharpoonup> nat) \<Rightarrow> VideoResult list \<Rightarrow> VideoResult list \<times> exn option" where
  "apply_scores [] d vs = (vs, None)"
| "apply_scores (item # rest) d vs =
     (case si_video_id item of
        None \<Rightarrow> (vs, Some (KeyError ''video_id''))
      | Some vid \<Rightarrow>
          (case d vid of
             None \<Rightarrow> apply_scores rest d vs
           | Some i \<Rightarrow>
               (case assign_scores (vs ! i) item of
                  (video, Some e) \<Rightarrow> (vs[i := video], Some e)
                | (video, None) \<Rightarrow> apply_scores rest d (vs[i := video]))))"

text \<open>
  The \<^verbatim>\<open>try\<close> block of \<^verbatim>\<open>rank_by_accuracy\<close> up to \<^verbatim>\<open>json.loads\<close>: the request,
  the extraction of the array and its parsing give \<^verbatim>\<open>scores_data\<close> or raise.
\<close>

definition fetch_scores ::
  "services \<Rightarrow> VideoResult list \<Rightarrow> PieceIdentification \<Rightarrow> string \<Rightarrow> exn + score_item list" where
  "fetch_scores env vs piece_id instrument =
     (case groq_score env vs piece_id instrument of
        Inl e \<Rightarrow> Inl e
      | Inr content \<Rightarrow>
          (case extract_json_array_from_content content of
             Inl e \<Rightarrow> Inl e
           | Inr json_str \<Rightarrow> json_loads_array env json_str))"

definition rank_by_accuracy ::
  "services \<Rightarrow> VideoResult list \<Rightarrow> PieceIdentification \<Rightarrow> string \<Rightarrow> VideoResult list" where
  "rank_by_accuracy env vs piece_id instrument =
     (if vs = [] then []
      else
        (case fetch_scores env vs piece_id instrument of
           Inl e \<Rightarrow> py_sorted_reverse views vs
         | Inr scores_data \<Rightarrow>
             (case apply_scores scores_data (video_dict vs) vs of
                (vs', Some e) \<Rightarrow> py_sorted_reverse views vs'
              | (vs', None) \<Rightarrow>
                  py_sorted_reverse (\<lambda>x. (overall_accuracy_score x, scene_match_score x)) vs')))"

subsection \<open>The scan\<close>

text \<open>The selection at the end of \<^verbatim>\<open>scan_music_from_base64\<close>.\<close>

definition select_videos :: "VideoResult list \<Rightarrow> VideoResult list" where
  "select_videos ranked_videos =
     (let high_accuracy_videos = filter (\<lambda>v. overall_accuracy_score v \<ge> 6.0) ranked_videos in
      if length high_accuracy_videos \<ge> 5 then take 5 high_accuracy_videos
      else take 5 ranked_videos)"

text \<open>The body of the \<^verbatim>\<open>try\<close> block, with the rotator's index before and after.\<close>

definition scan_body :: "services \<Rightarrow> nat \<Rightarrow> string \<Rightarrow> string \<Rightarrow> (exn + scan_response) \<times> nat" where
  "scan_body env idx image_data_b64 target_instrument =
     (let validated_instrument = validate_instrument target_instrument in
      case extract_text_from_base64 env image_data_b64 of
        Inl e \<Rightarrow> (Inl e, idx)
      | Inr extracted_text \<Rightarrow>
          if extracted_text = [] \<or> length (py_strip extracted_text) < 5
          then (Inr (create_error_response ''No readable text found in image''), idx)
          else
            (case identify_piece_simple env extracted_text of
               Inl e \<Rightarrow> (Inl e, idx)
             | Inr piece_id \<Rightarrow>
                 if py_lower (confidence piece_id) = ''low''
                 then (Inr (create_error_response (reasoning piece_id)), idx)
                 else
                   (let search_terms = create_simple_search_terms piece_id validated_instrument in
                    case search_youtube_simple env search_terms idx of
                      (found, idx') \<Rightarrow>
                        if found = []
                        then (Inr (create_error_response
                                ''No videos found on YouTube - try checking your internet connection''),
                              idx')
                        else
                          (let ranked_videos =
                                 rank_by_accuracy env found piece_id validated_instrument;
                               selected_videos = select_videos ranked_videos
                           in (Inr \<lparr> piece_identification = piece_id,
                                     videos = selected_videos \<rparr>, idx')))))"

definition scan_music_from_base64 :: "services \<Rightarrow> nat \<Rightarrow> string \<Rightarrow> string \<Rightarrow> scan_response \<times> nat" where
  "scan_music_from_base64 env idx image_data_b64 target_instrument =
     (case scan_body env idx image_data_b64 target_instrument of
        (Inr result, idx') \<Rightarrow> (result, idx')
      | (Inl e, idx') \<Rightarrow> (create_error_response (''Scan failed: '' @ str_exn e), idx'))"

subsection \<open>Brace depth\<close>

text \<open>
  The number of opening braces minus the number of closing braces of a string: the value
  of the brace counter after reading it from zero.
\<close>

definition depth :: "string \<Rightarrow> int" where
  "depth xs = int (count_list xs CHR ''{'') - int (count_list xs CHR ''}'')"

subsection \<open>Notions used to state the properties\<close>

text \<open>
  The outcome of \<open>search_youtube_single\<close> for each strategy, in the order and with the
  rotator index in which \<open>search_youtube_simple\<close> calls it, and the videos of the
  successful strategies in the order they are met.
\<close>

fun strategy_outcomes ::
  "services \<Rightarrow> (string \<times> string) list \<Rightarrow> nat \<Rightarrow> (exn + VideoResult list) list" where
  "strategy_outcomes env [] idx = []"
| "strategy_outcomes env ((term, strategy) # rest) idx =
     (case search_youtube_single env term strategy idx of
        (outcome, idx') \<Rightarrow> outcome # strategy_outcomes env rest idx')"

definition videos_met :: "(exn + VideoResult list) list \<Rightarrow> VideoResult list" where
  "videos_met outcomes = concat (map (\<lambda>r. case r of Inr found \<Rightarrow> found | Inl e \<Rightarrow> []) outcomes)"


definition zero_scores :: "VideoResult \<Rightarrow> bool" where
  "zero_scores v =
     (title_match_score v = 0 \<and> composer_match_score v = 0 \<and> scene_match_score v = 0 \<and>
      duration_match_score v = 0 \<and> overall_accuracy_score v = 0)"



subsection \<open>A sample environment\<close>

text \<open>
  One text, one identification, two credentials, a search that returns six well-formed
  identifiers among two that are not, metadata for every identifier, and a scoring reply
  inside a fence.
\<close>

definition example_views :: "string \<Rightarrow> int" where
  "example_views vid =
     (if vid = ''aaaaaaaaaaa'' then 1200
      else if vid = ''bbbbbbbbbbb'' then 1200
      else if vid = ''ccccccccccc'' then 50
      else if vid = ''ddddddddddd'' then 900000
      else if vid = ''eeeeeeeeeee'' then 7
      else 300)"

definition example_item :: "string \<Rightarrow> video_item" where
  "example_item vid =
     \<lparr> vi_id = Some vid,
       vi_snippet = Some \<lparr> sn_title = Some ''Messager - Solo de concours'',
                            sn_channelTitle = Some ''Clarinet Channel'' \<rparr>,
       vi_statistics = Some \<lparr> st_viewCount = Numeric (example_views vid), st_likeCount = Absent \<rparr>,
       vi_contentDetails = Some (Some ''PT4M13S'') \<rparr>"

definition example_score :: "string \<Rightarrow> real \<Rightarrow> real \<Rightarrow> score_item" where
  "example_score vid overall scene =
     \<lparr> si_video_id = Some vid,
       si_title_match_score = Some 9,
       si_composer_match_score = Some 8,
       si_scene_match_score = Some scene,
       si_duration_match_score = Some 7,
       si_overall_accuracy_score = Some overall \<rparr>"

definition example_scores :: "score_item list" where
  "example_scores =
     [example_score ''aaaaaaaaaaa'' 9 5,
      example_score ''bbbbbbbbbbb'' 5.5 5,
      example_score ''zzzzzzzzzzz'' 10 10,
      example_score ''ccccccccccc'' 7 5,
      example_score ''ddddddddddd'' 8 5,
      example_score ''eeeeeeeeeee'' 6 5,
      example_score ''fffffffffff'' 6.5 5]"

definition example_services :: services where
  "example_services =
     \<lparr> extract_text_from_base64 = (\<lambda>image. Inr ''Solo de concours Messager''),
       groq_identify = (\<lambda>text. Inr ''Here it is: {title: Solo de concours} done''),
       json_loads_object = (\<lambda>json_str.
          Inr [(''title'', ''Solo de concours''), (''composer'', ''Messager''),
               (''scene_movement'', []), (''confidence'', ''high''),
               (''reasoning'', ''clear title and composer'')]),
       YOUTUBE_API_KEYS = [''key1'', ''key2''],
       youtube_search = (\<lambda>query api_key.
          SearchStatus 200
            [Some ''aaaaaaaaaaa'', Some ''bbbbbbbbbbb'', None, Some ''not an id'',
             Some ''ccccccccccc'', Some ''ddddddddddd'', Some ''eeeeeeeeeee'',
             Some ''fffffffffff'']),
       youtube_videos = (\<lambda>ids api_key. DetailsStatus 200 (map example_item ids)),
       isodate_parse_duration = (\<lambda>iso.
          if iso = ''PT4M13S'' then Inr 253 else Inl (ValueError ''bad duration'')),
       groq_score = (\<lambda>vs piece_id instrument. Inr ''```json [scores] ```''),
       json_loads_array = (\<lambda>json_str.
          if json_str = ''[scores]'' then Inr example_scores
          else Inl (ValueError ''not an array'')) \<rparr>"

definition example_piece :: PieceIdentification where
  "example_piece =
     \<lparr> title = ''Solo de concours'', composer = ''Messager'', scene_movement = [],
       confidence = ''high'', reasoning = ''clear title and composer'' \<rparr>"

text \<open>The candidate that \<open>parse_video_item\<close> builds from \<open>example_item\<close>.\<close>

definition example_video :: "string \<Rightarrow> string \<Rightarrow> VideoResult" where
  "example_video vid strategy =
     \<lparr> video_id = vid,
       video_title = ''Messager - Solo de concours'',
       channel = ''Clarinet Channel'',
       video_url = ''https://www.youtube.com/watch?v='' @ vid,
       views = example_views vid,
       likes = 0,
       duration = ''4:13'',
       duration_seconds = 253,
       search_strategy = strategy,
       title_match_score = 0,
       composer_match_score = 0,
       scene_match_score = 0,
       duration_match_score = 0,
       overall_accuracy_score = 0 \<rparr>"

definition example_found :: "VideoResult list" where
  "example_found =
     map (\<lambda>vid. example_video vid ''basic'')
       [''aaaaaaaaaaa'', ''bbbbbbbbbbb'', ''ccccccccccc'', ''ddddddddddd'', ''eeeeeeeeeee'',
        ''fffffffffff'']"

text \<open>The same environment with an identification reply whose composer is not resolved.\<close>

definition unknown_composer_services :: services where
  "unknown_composer_services =
     example_services\<lparr> json_loads_object := (\<lambda>json_str.
        Inr [(''title'', ''Concerto in D''), (''composer'', ''  UnKnown ''),
             (''scene_movement'', []), (''confidence'', ''high''),
             (''reasoning'', ''no composer on the page'')]) \<rparr>"


text \<open>The sample environment with a scoring request that fails.\<close>

definition failing_score_services :: services where
  "failing_score_services =
     example_services\<lparr> groq_score := (\<lambda>vs piece_id instrument. Inl (RequestException ''timed out'')) \<rparr>"

text \<open>
  The sample environment with a search that answers the first credential with a server
  error and the second with one result; with a search that succeeds for no credential;
  with a metadata service that refuses batches with status 403 but answers single
  identifiers; and with one that rejects batches with status 400 and knows only the
  first identifier.
\<close>

definition server_error_services :: services where
  "server_error_services =
     example_services\<lparr> youtube_search := (\<lambda>query api_key.
        if api_key = ''key1'' then SearchStatus 500 []
        else SearchStatus 200 [Some ''aaaaaaaaaaa'']) \<rparr>"

definition unavailable_search_services :: services where
  "unavailable_search_services =
     example_services\<lparr> youtube_search := (\<lambda>query api_key.
        if api_key = ''key1'' then SearchStatus 500 [] else SearchStatus 403 []) \<rparr>"



section \<open>Properties\<close>

subsection \<open>The object extractor\<close>

lemma depth_Cons:
  "depth (c # cs) = (if c = CHR ''{'' then 1 else if c = CHR ''}'' then -1 else 0) + depth cs"
  by (simp add: depth_def)

lemma depth_Nil: "depth [] = 0" by (simp add: depth_def)

lemma brace_loop_unbalanced:
  "1 \<le> bc \<Longrightarrow> (\<And>n. 0 < n \<Longrightarrow> n \<le> length xs \<Longrightarrow> bc + depth (take n xs) \<noteq> 0)
     \<Longrightarrow> brace_loop xs start i bc e = e"
proof (induction xs arbitrary: i bc)
  case Nil
  then show ?case by simp
next
  case (Cons c cs)
  have step: "bc + depth (take (Suc n) (c # cs)) \<noteq> 0" if "n \<le> length cs" for n
    using Cons.prems(2) [of "Suc n"] that by simp
  from step [of 0] have one: "bc + depth [c] \<noteq> 0" by simp
  have tl: "bc + depth [c] + depth (take n cs) \<noteq> 0" if "n \<le> length cs" for n
    using step [OF that] by (simp add: depth_Cons depth_Nil)
  show ?case
  proof (cases "c = CHR ''{''")
    case True
    have "brace_loop cs start (i + 1) (bc + 1) e = e"
      using Cons.prems(1) tl True by (intro Cons.IH) (auto simp: depth_Cons depth_Nil)
    with True show ?thesis by simp
  next
    case False
    show ?thesis
    proof (cases "c = CHR ''}''")
      case True
      from one True have ne: "bc - 1 \<noteq> 0" by (simp add: depth_Cons depth_Nil)
      with Cons.prems(1) have "1 \<le> bc - 1" by simp
      then have "brace_loop cs start (i + 1) (bc - 1) e = e"
        using tl True by (intro Cons.IH) (auto simp: depth_Cons depth_Nil)
      with True ne show ?thesis by simp
    next
      case False
      have "brace_loop cs start (i + 1) bc e = e"
        using Cons.prems(1) tl False \<open>c \<noteq> CHR ''{''\<close>
        by (intro Cons.IH) (auto simp: depth_Cons depth_Nil)
      with False \<open>c \<noteq> CHR ''{''\<close> show ?thesis by simp
    qed
  qed
qed

lemma brace_loop_balanced:
  "1 \<le> bc \<Longrightarrow> 0 < n \<Longrightarrow> n \<le> length xs \<Longrightarrow> bc + depth (take n xs) = 0
     \<Longrightarrow> (\<And>m. 0 < m \<Longrightarrow> m < n \<Longrightarrow> bc + depth (take m xs) \<noteq> 0)
     \<Longrightarrow> brace_loop xs start i bc e = start + i + n"
proof (induction xs arbitrary: i bc n)
  case Nil
  then show ?case by simp
next
  case (Cons c cs)
  from Cons.prems(2) obtain k where n: "n = Suc k" by (cases n) auto
  have zero: "bc + depth [c] + depth (take k cs) = 0"
    using Cons.prems(4) by (simp add: n depth_Cons depth_Nil)
  have k_le: "k \<le> length cs" using Cons.prems(3) n by simp
  have before: "bc + depth [c] + depth (take m cs) \<noteq> 0" if "m < k" for m
    using Cons.prems(5) [of "Suc m"] that by (simp add: n depth_Cons depth_Nil)
  show ?case
  proof (cases "bc + depth [c] = 0")
    case True
    with before [of 0] have "k = 0" by (cases k) (auto simp: depth_Nil)
    moreover from True Cons.prems(1) have "c = CHR ''}''" "bc - 1 = 0"
      by (auto simp: depth_Cons depth_Nil split: if_splits)
    ultimately show ?thesis using n by simp
  next
    case False
    with zero have kpos: "0 < k" by (cases k) (auto simp: depth_Nil)
    have ge: "1 \<le> bc + depth [c]"
      using False Cons.prems(1) by (auto simp: depth_Cons depth_Nil split: if_splits)
    have IH: "brace_loop cs start (i + 1) (bc + depth [c]) e = start + (i + 1) + k"
      using ge kpos k_le zero before by (intro Cons.IH) auto
    show ?thesis
    proof (cases "c = CHR ''{''")
      case True
      with IH show ?thesis by (simp add: n depth_Cons depth_Nil)
    next
      case nb: False
      show ?thesis
      proof (cases "c = CHR ''}''")
        case True
        with False have "bc - 1 \<noteq> 0" by (simp add: depth_Cons depth_Nil)
        with True IH show ?thesis by (simp add: n depth_Cons depth_Nil)
      next
        case False
        with nb IH show ?thesis by (simp add: n depth_Cons depth_Nil)
      qed
    qed
  qed
qed

lemma py_find_ge: "- 1 \<le> py_find s ch"
  by (induction s) (auto simp: Let_def)

lemma py_find_none: "(py_find s ch = - 1) = (ch \<notin> set s)"
proof (induction s)
  case Nil
  then show ?case by simp
next
  case (Cons c cs)
  from py_find_ge [of cs ch] have "py_find cs ch + 1 \<noteq> - 1" by arith
  with Cons show ?case by (auto simp: Let_def)
qed

lemma py_find_takeWhile:
  "ch \<in> set s \<Longrightarrow> py_find s ch = int (length (takeWhile (\<lambda>x. x \<noteq> ch) s))"
proof (induction s)
  case Nil
  then show ?case by simp
next
  case (Cons c cs)
  show ?case
  proof (cases "c = ch")
    case True
    then show ?thesis by simp
  next
    case False
    with Cons.prems have "ch \<in> set cs" by simp
    with Cons.IH py_find_none [of cs ch] False show ?thesis by (simp add: Let_def)
  qed
qed

lemma py_in_split_first: "sep \<noteq> [] \<Longrightarrow> py_in sep s \<Longrightarrow> split_first sep s \<noteq> None"
  by (induction s) (auto split: option.splits)

lemma py_split_two: "sep \<noteq> [] \<Longrightarrow> py_in sep s \<Longrightarrow> 2 \<le> length (py_split sep s)"
proof -
  assume sep: "sep \<noteq> []" and "py_in sep s"
  then obtain b a where ba: "split_first sep s = Some (b, a)"
    using py_in_split_first by fastforce
  have "1 \<le> length (py_split sep a)"
    by (subst py_split.simps) (simp split: option.splits)
  with sep ba show ?thesis
    by (subst py_split.simps) simp
qed

lemma py_split_nonempty: "0 < length (py_split sep s)"
  by (subst py_split.simps) (simp split: option.splits)

lemma strip_fence_total: "\<exists>c. strip_fence content = Inr c"
proof -
  have a: "py_in ''```json'' s \<Longrightarrow> \<exists>p. py_index (py_split ''```json'' s) 1 = Inr p" for s
    using py_split_two [of "''```json''" s] by (simp add: py_index_def)
  have b: "py_in ''```'' s \<Longrightarrow> \<exists>p. py_index (py_split ''```'' s) 1 = Inr p" for s
    using py_split_two [of "''```''" s] by (simp add: py_index_def)
  have c: "\<exists>p. py_index (py_split ''```'' s) 0 = Inr p" for s
    using py_split_nonempty [of "''```''" s] by (simp add: py_index_def)
  show ?thesis
    unfolding strip_fence_def Let_def
    using a b c by (auto split: sum.splits) (metis sum.distinct(1))+
qed

lemma scan_object_none:
  "CHR ''{'' \<notin> set c \<Longrightarrow> scan_object c = Inl (Exception ''No JSON object found'')"
  by (simp add: scan_object_def py_find_none)

lemma scan_object_some:
  assumes "CHR ''{'' \<in> set c"
  shows "scan_object c =
    Inr (take (brace_loop (dropWhile (\<lambda>x. x \<noteq> CHR ''{'') c) (length (takeWhile (\<lambda>x. x \<noteq> CHR ''{'') c)) 0 0
                (length (takeWhile (\<lambda>x. x \<noteq> CHR ''{'') c)) - length (takeWhile (\<lambda>x. x \<noteq> CHR ''{'') c))
              (dropWhile (\<lambda>x. x \<noteq> CHR ''{'') c))"
proof -
  have ne: "py_find c CHR ''{'' \<noteq> - 1" using assms by (simp add: py_find_none)
  have st: "nat (py_find c CHR ''{'') = length (takeWhile (\<lambda>x. x \<noteq> CHR ''{'') c)"
    using py_find_takeWhile [OF assms] by simp
  show ?thesis
    using ne by (simp add: scan_object_def Let_def st py_slice_def dropWhile_eq_drop)
qed


lemma brace_loop_from_open:
  assumes s: "s = CHR ''{'' # rest"
  shows "(\<forall>n. 0 < n \<and> n \<le> length s \<longrightarrow> depth (take n s) \<noteq> 0) \<longrightarrow> brace_loop s st 0 0 st = st"
    and "\<forall>n. 0 < n \<and> n \<le> length s \<and> depth (take n s) = 0 \<and>
            (\<forall>m. 0 < m \<and> m < n \<longrightarrow> depth (take m s) \<noteq> 0) \<longrightarrow> brace_loop s st 0 0 st = st + n"
proof -
  have first: "brace_loop s st 0 0 st = brace_loop rest st 1 1 st"
    by (simp add: s)
  have shift: "depth (take (Suc k) s) = 1 + depth (take k rest)" for k
    by (simp add: s depth_Cons)
  show "(\<forall>n. 0 < n \<and> n \<le> length s \<longrightarrow> depth (take n s) \<noteq> 0) \<longrightarrow> brace_loop s st 0 0 st = st"
  proof
    assume all: "\<forall>n. 0 < n \<and> n \<le> length s \<longrightarrow> depth (take n s) \<noteq> 0"
    have "1 + depth (take k rest) \<noteq> 0" if "0 < k" "k \<le> length rest" for k
      using all [rule_format, of "Suc k"] that shift [of k] by (simp add: s)
    then have "brace_loop rest st 1 1 st = st"
      by (intro brace_loop_unbalanced) auto
    with first show "brace_loop s st 0 0 st = st" by simp
  qed
  show "\<forall>n. 0 < n \<and> n \<le> length s \<and> depth (take n s) = 0 \<and>
            (\<forall>m. 0 < m \<and> m < n \<longrightarrow> depth (take m s) \<noteq> 0) \<longrightarrow> brace_loop s st 0 0 st = st + n"
  proof (intro allI impI, elim conjE)
    fix n
    assume n: "0 < n" "n \<le> length s" "depth (take n s) = 0"
      and least: "\<forall>m. 0 < m \<and> m < n \<longrightarrow> depth (take m s) \<noteq> 0"
    from n(1) obtain k where k: "n = Suc k" by (cases n) auto
    from n(3) shift [of k] have z: "1 + depth (take k rest) = 0" by (simp add: k)
    then have kpos: "0 < k" by (cases k) (auto simp: depth_Nil)
    have kle: "k \<le> length rest" using n(2) by (simp add: k s)
    have "1 + depth (take m rest) \<noteq> 0" if "0 < m" "m < k" for m
      using least [rule_format, of "Suc m"] that shift [of m] by (simp add: k)
    then have "brace_loop rest st 1 1 st = st + 1 + k"
      using kpos kle z by (intro brace_loop_balanced) auto
    with first show "brace_loop s st 0 0 st = st + n" by (simp add: k)
  qed
qed

text \<open>
  Claim C10. After the fence handling, which never raises, \<open>extract_json_from_content\<close>
  raises exactly when the text has no opening brace, and the exception is then
  "No JSON object found". When there is an opening brace, let \<open>s\<close> be the text from the
  first one on: if no non-empty prefix of \<open>s\<close> has brace depth zero (the counter never
  returns to zero), the result is the empty string and nothing is raised; if \<open>n\<close> is the
  length of the shortest non-empty prefix of depth zero, the result is that prefix, the
  text from the first opening brace through the brace that closes it.
\<close>

theorem extract_json_from_content_cases:
  "\<exists>c. strip_fence content = Inr c \<and>
     ((\<exists>e. extract_json_from_content content = Inl e) = (CHR ''{'' \<notin> set c)) \<and>
     (CHR ''{'' \<notin> set c \<longrightarrow>
        extract_json_from_content content = Inl (Exception ''No JSON object found'')) \<and>
     (CHR ''{'' \<in> set c \<longrightarrow>
        (let s = dropWhile (\<lambda>x. x \<noteq> CHR ''{'') c in
           ((\<forall>n. 0 < n \<and> n \<le> length s \<longrightarrow> depth (take n s) \<noteq> 0) \<longrightarrow>
              extract_json_from_content content = Inr []) \<and>
           (\<forall>n. 0 < n \<and> n \<le> length s \<and> depth (take n s) = 0 \<and>
                  (\<forall>m. 0 < m \<and> m < n \<longrightarrow> depth (take m s) \<noteq> 0) \<longrightarrow>
              extract_json_from_content content = Inr (take n s))))"
proof -
  obtain c where c: "strip_fence content = Inr c"
    using strip_fence_total by blast
  have ex: "extract_json_from_content content = scan_object c"
    by (simp add: extract_json_from_content_def c)
  define s where "s = dropWhile (\<lambda>x. x \<noteq> CHR ''{'') c"
  define st where "st = length (takeWhile (\<lambda>x. x \<noteq> CHR ''{'') c)"
  have none: "extract_json_from_content content = Inl (Exception ''No JSON object found'')"
    if "CHR ''{'' \<notin> set c"
    using that by (simp add: ex scan_object_none)
  have some: "extract_json_from_content content = Inr (take (brace_loop s st 0 0 st - st) s)"
    if "CHR ''{'' \<in> set c"
    using that by (simp add: ex scan_object_some s_def st_def)
  have shape: "\<exists>rest. s = CHR ''{'' # rest" if "CHR ''{'' \<in> set c"
  proof -
    from that have "s \<noteq> []" by (auto simp: s_def)
    moreover from this have "hd s = CHR ''{''"
      unfolding s_def using hd_dropWhile [of "\<lambda>x. x \<noteq> CHR ''{''" c] by simp
    ultimately show ?thesis by (cases s) auto
  qed
  have raises: "(\<exists>e. extract_json_from_content content = Inl e) = (CHR ''{'' \<notin> set c)"
    using none some by (cases "CHR ''{'' \<in> set c") auto
  have inside: "((\<forall>n. 0 < n \<and> n \<le> length s \<longrightarrow> depth (take n s) \<noteq> 0) \<longrightarrow>
              extract_json_from_content content = Inr []) \<and>
           (\<forall>n. 0 < n \<and> n \<le> length s \<and> depth (take n s) = 0 \<and>
                  (\<forall>m. 0 < m \<and> m < n \<longrightarrow> depth (take m s) \<noteq> 0) \<longrightarrow>
              extract_json_from_content content = Inr (take n s))"
    if "CHR ''{'' \<in> set c"
  proof -
    from shape [OF that] obtain rest where r: "s = CHR ''{'' # rest" by blast
    show ?thesis
      using brace_loop_from_open [OF r, of st] some [OF that] by auto
  qed
  show ?thesis
    using c raises none inside unfolding s_def Let_def by blast
qed

text \<open>The theorem at the text \<open>x{}y\<close>, whose balanced prefix has length two.\<close>

theorem extract_json_from_content_cases_witness:
  "strip_fence ''x{}y'' = Inr ''x{}y'' \<and> CHR ''{'' \<in> set ''x{}y'' \<and>
   extract_json_from_content ''x{}y'' = Inr ''{}''"
proof -
  have sf: "strip_fence ''x{}y'' = Inr ''x{}y''"
    by (simp add: strip_fence_def py_strip_def is_space_def)
  have least: "\<forall>m. 0 < m \<and> m < (2::nat) \<longrightarrow> depth (take m ''{}y'') \<noteq> 0"
  proof (intro allI impI)
    fix m :: nat assume "0 < m \<and> m < 2"
    then have "m = 1" by arith
    then show "depth (take m ''{}y'') \<noteq> 0" by (simp add: depth_def)
  qed
  have bal: "depth (take 2 ''{}y'') = 0"
    by (simp add: depth_def numeral_2_eq_2)
  from extract_json_from_content_cases [of "''x{}y''"] sf
  have "\<forall>n. 0 < n \<and> n \<le> length ''{}y'' \<and> depth (take n ''{}y'') = 0 \<and>
                  (\<forall>m. 0 < m \<and> m < n \<longrightarrow> depth (take m ''{}y'') \<noteq> 0) \<longrightarrow>
              extract_json_from_content ''x{}y'' = Inr (take n ''{}y'')"
    by (simp add: Let_def)
  from this [rule_format, of 2] least bal
  have "extract_json_from_content ''x{}y'' = Inr (take 2 ''{}y'')" by simp
  then show ?thesis using sf by (simp add: numeral_2_eq_2)
qed

subsection \<open>Search strategies\<close>

text \<open>
  Claim C4. For every identification and instrument: with an empty scene or movement,
  exactly two strategies are produced, \<open>basic\<close> = "title composer instrument" and then
  \<open>ensemble\<close> = "title composer"; with a non-empty one exactly four, in the order
  \<open>basic\<close>, \<open>scene\<close> = "title composer instrument scene", \<open>ensemble\<close>,
  \<open>ensemble_scene\<close> = "title composer scene". The result is that list as it stands, so
  equal query strings are not merged.
\<close>

theorem create_simple_search_terms_strategies:
  "(scene_movement piece_id = [] \<longrightarrow>
      create_simple_search_terms piece_id instrument =
        [(title piece_id @ '' '' @ composer piece_id @ '' '' @ instrument, ''basic''),
         (title piece_id @ '' '' @ composer piece_id, ''ensemble'')] \<and>
      length (create_simple_search_terms piece_id instrument) = 2) \<and>
   (scene_movement piece_id \<noteq> [] \<longrightarrow>
      create_simple_search_terms piece_id instrument =
        [(title piece_id @ '' '' @ composer piece_id @ '' '' @ instrument, ''basic''),
         (title piece_id @ '' '' @ composer piece_id @ '' '' @ instrument @ '' ''
            @ scene_movement piece_id, ''scene''),
         (title piece_id @ '' '' @ composer piece_id, ''ensemble''),
         (title piece_id @ '' '' @ composer piece_id @ '' '' @ scene_movement piece_id,
          ''ensemble_scene'')] \<and>
      length (create_simple_search_terms piece_id instrument) = 4)"
  by (simp add: create_simple_search_terms_def Let_def)

text \<open>
  Both cases at concrete identifications; in the first the instrument makes the
  \<open>basic\<close> query repeat the \<open>ensemble\<close> query, and both are kept.
\<close>

theorem create_simple_search_terms_strategies_witness:
  "create_simple_search_terms
     \<lparr> title = ''Aida'', composer = ''Verdi'', scene_movement = [],
       confidence = ''high'', reasoning = [] \<rparr> ''Aida Verdi''
     = [(''Aida Verdi Aida Verdi'', ''basic''), (''Aida Verdi'', ''ensemble'')] \<and>
   create_simple_search_terms
     \<lparr> title = ''Aida'', composer = ''Verdi'', scene_movement = ''Act 2'',
       confidence = ''high'', reasoning = [] \<rparr> ''oboe''
     = [(''Aida Verdi oboe'', ''basic''), (''Aida Verdi oboe Act 2'', ''scene''),
        (''Aida Verdi'', ''ensemble''), (''Aida Verdi Act 2'', ''ensemble_scene'')]"
  using create_simple_search_terms_strategies
          [of "\<lparr> title = ''Aida'', composer = ''Verdi'', scene_movement = [],
                 confidence = ''high'', reasoning = [] \<rparr>" "''Aida Verdi''"]
        create_simple_search_terms_strategies
          [of "\<lparr> title = ''Aida'', composer = ''Verdi'', scene_movement = ''Act 2'',
                 confidence = ''high'', reasoning = [] \<rparr>" "''oboe''"]
  by simp

subsection \<open>Durations\<close>

lemma format_duration_zero: "format_duration 0 = ''0:00''"
  by code_simp

text \<open>
  Claim C9. For every duration string that the ISO-8601 parser rejects (it raises),
  \<open>parse_youtube_duration\<close> yields 0 and does not raise, and formatting that result
  yields "0:00". Both functions are total: \<open>parse_youtube_duration\<close> turns every
  outcome of the parser into an integer (0 for an exception, the parsed seconds
  otherwise), and \<open>format_duration\<close> has no exception branch.
\<close>

theorem duration_round_trip_malformed:
  "(\<forall>e. isodate_parse_duration env duration_iso = Inl e \<longrightarrow>
        parse_youtube_duration env duration_iso = 0 \<and>
        format_duration (parse_youtube_duration env duration_iso) = ''0:00'') \<and>
   (\<forall>n. isodate_parse_duration env duration_iso = Inr n \<longrightarrow>
        parse_youtube_duration env duration_iso = n)"
  by (simp add: parse_youtube_duration_def format_duration_zero)

text \<open>A rejected string and an accepted one in the sample environment.\<close>

theorem duration_round_trip_malformed_witness:
  "isodate_parse_duration example_services ''4 minutes'' = Inl (ValueError ''bad duration'') \<and>
   parse_youtube_duration example_services ''4 minutes'' = 0 \<and>
   format_duration (parse_youtube_duration example_services ''4 minutes'') = ''0:00'' \<and>
   isodate_parse_duration example_services ''PT4M13S'' = Inr 253 \<and>
   parse_youtube_duration example_services ''PT4M13S'' = 253"
proof -
  have a: "isodate_parse_duration example_services ''4 minutes'' = Inl (ValueError ''bad duration'')"
    by (simp add: example_services_def)
  have b: "isodate_parse_duration example_services ''PT4M13S'' = Inr 253"
    by (simp add: example_services_def)
  from duration_round_trip_malformed [of example_services "''4 minutes''"] a
       duration_round_trip_malformed [of example_services "''PT4M13S''"] b
  show ?thesis by (simp add: format_duration_zero)
qed

subsection \<open>Selection\<close>






subsection \<open>The composer rule\<close>

lemma error_response_shape:
  "videos (create_error_response m) = [] \<and>
   confidence (piece_identification (create_error_response m)) = ''low'' \<and>
   reasoning (piece_identification (create_error_response m)) = m"
  by (simp add: create_error_response_def)

text \<open>
  Claim C3. For every parsed identification reply whose composer, trimmed and in lower
  case, is "unknown" or empty (also when the key is absent), the identification step
  fails with the error "Please show clearer composer", whatever the confidence field
  says, and a scan whose text extraction gave that text returns the error envelope: no
  videos, confidence low, and, when the text is long enough for the identification to
  run, the reasoning "Scan failed: Please show clearer composer".
\<close>

theorem composer_unknown_is_fatal:
  assumes "groq_identify env extracted_text = Inr content"
    and "extract_json_from_content content = Inr json_str"
    and "json_loads_object env json_str = Inr identification_data"
    and "py_lower (py_strip (dict_get identification_data ''composer'' [])) = ''unknown'' \<or>
         py_lower (py_strip (dict_get identification_data ''composer'' [])) = []"
  shows "identify_piece_simple env extracted_text = Inl (ValueError ''Please show clearer composer'') \<and>
         (\<forall>idx image_data_b64 target_instrument.
            extract_text_from_base64 env image_data_b64 = Inr extracted_text \<longrightarrow>
              (let response = fst (scan_music_from_base64 env idx image_data_b64 target_instrument)
               in videos response = [] \<and>
                  confidence (piece_identification response) = ''low'' \<and>
                  (\<not> (extracted_text = [] \<or> length (py_strip extracted_text) < 5) \<longrightarrow>
                     response = create_error_response ''Scan failed: Please show clearer composer'')))"
proof -
  have ident: "identify_piece_simple env extracted_text = Inl (ValueError ''Please show clearer composer'')"
    using assms by (auto simp: identify_piece_simple_def)
  have scan: "fst (scan_music_from_base64 env idx image_data_b64 target_instrument) =
                (if extracted_text = [] \<or> length (py_strip extracted_text) < 5
                 then create_error_response ''No readable text found in image''
                 else create_error_response ''Scan failed: Please show clearer composer'')"
    if "extract_text_from_base64 env image_data_b64 = Inr extracted_text"
    for idx image_data_b64 target_instrument
    using that ident by (simp add: scan_music_from_base64_def scan_body_def Let_def)
  show ?thesis
    using ident scan error_response_shape by (simp add: Let_def)
qed

text \<open>A reply with composer "  UnKnown " and confidence "high".\<close>

theorem composer_unknown_is_fatal_witness:
  "dict_get [(''title'', ''Concerto in D''), (''composer'', ''  UnKnown ''),
             (''scene_movement'', []), (''confidence'', ''high''),
             (''reasoning'', ''no composer on the page'')] ''confidence'' [] = ''high'' \<and>
   identify_piece_simple unknown_composer_services ''Solo de concours Messager''
     = Inl (ValueError ''Please show clearer composer'') \<and>
   fst (scan_music_from_base64 unknown_composer_services 0 ''img'' ''Clarinet'')
     = create_error_response ''Scan failed: Please show clearer composer''"
proof -
  let ?d = "[(''title'', ''Concerto in D''), (''composer'', ''  UnKnown ''),
             (''scene_movement'', []), (''confidence'', ''high''),
             (''reasoning'', ''no composer on the page'')]"
  have h1: "groq_identify unknown_composer_services ''Solo de concours Messager''
              = Inr ''Here it is: {title: Solo de concours} done''"
    by (simp add: unknown_composer_services_def example_services_def)
  have h2: "extract_json_from_content ''Here it is: {title: Solo de concours} done''
              = Inr ''{title: Solo de concours}''"
    by code_simp
  have h3: "json_loads_object unknown_composer_services ''{title: Solo de concours}'' = Inr ?d"
    by (simp add: unknown_composer_services_def example_services_def)
  have h4: "py_lower (py_strip (dict_get ?d ''composer'' [])) = ''unknown'' \<or>
            py_lower (py_strip (dict_get ?d ''composer'' [])) = []"
    by code_simp
  have h5: "extract_text_from_base64 unknown_composer_services ''img'' = Inr ''Solo de concours Messager''"
    by (simp add: unknown_composer_services_def example_services_def)
  have h6: "\<not> (''Solo de concours Messager'' = [] \<or> length (py_strip ''Solo de concours Messager'') < 5)"
    by code_simp
  have h7: "dict_get ?d ''confidence'' [] = ''high''"
    by code_simp
  from composer_unknown_is_fatal [OF h1 h2 h3 h4] h5 h6 h7
  show ?thesis by (simp add: Let_def)
qed

subsection \<open>Fallback ranking\<close>

lemma mset_py_sorted_reverse: "mset (py_sorted_reverse k xs) = mset xs"
  by (simp add: py_sorted_reverse_def)

lemma py_sorted_reverse_descending:
  "sorted_wrt (\<lambda>a b. k a \<ge> k b) (py_sorted_reverse k xs)"
proof -
  have "sorted (map k (sort_key k (rev xs)))"
    by (rule sorted_sort_key)
  then have "sorted_wrt (\<lambda>a b. k a \<le> k b) (sort_key k (rev xs))"
    by (simp add: sorted_wrt_map)
  then show ?thesis
    by (simp add: py_sorted_reverse_def sorted_wrt_rev)
qed

lemma py_sorted_reverse_stable:
  "filter (\<lambda>y. k y = c) (py_sorted_reverse k xs) = filter (\<lambda>y. k y = c) xs"
proof -
  have "filter (\<lambda>y. k y = c) (py_sorted_reverse k xs)
          = rev (filter (\<lambda>y. k y = c) (sort_key k (rev xs)))"
    by (simp add: py_sorted_reverse_def rev_filter)
  also have "\<dots> = rev (filter (\<lambda>y. k y = c) (rev xs))"
    by (simp only: sort_key_stable)
  also have "\<dots> = filter (\<lambda>y. k y = c) xs"
    by (simp add: rev_filter)
  finally show ?thesis .
qed

lemma rank_by_accuracy_fallback:
  "vs \<noteq> [] \<Longrightarrow> fetch_scores env vs piece_id instrument = Inl e \<Longrightarrow>
     rank_by_accuracy env vs piece_id instrument = py_sorted_reverse views vs"
  by (simp add: rank_by_accuracy_def)

text \<open>
  Claim C2, as the code has it. For every non-empty candidate list, if fetching the
  scores fails (the request raises, or no array can be extracted or parsed from the
  reply), \<open>rank_by_accuracy\<close> returns the candidates in non-increasing order of view
  count, candidates with equal view counts keeping their input order; the result is a
  rearrangement of the input records themselves, so every score field is what it was, and
  candidates that came with the zero defaults still have them. The function has no
  exception branch left: the fallback always returns a list.
\<close>

theorem fallback_ranking:
  assumes "vs \<noteq> []" and "fetch_scores env vs piece_id instrument = Inl e"
  shows "let ranked = rank_by_accuracy env vs piece_id instrument in
           sorted_wrt (\<lambda>a b. views a \<ge> views b) ranked \<and>
           mset ranked = mset vs \<and>
           (\<forall>n. filter (\<lambda>v. views v = n) ranked = filter (\<lambda>v. views v = n) vs) \<and>
           ((\<forall>v \<in> set vs. zero_scores v) \<longrightarrow> (\<forall>v \<in> set ranked. zero_scores v))"
proof -
  have r: "rank_by_accuracy env vs piece_id instrument = py_sorted_reverse views vs"
    using assms by (rule rank_by_accuracy_fallback)
  have "set (py_sorted_reverse views vs) = set vs"
    using mset_py_sorted_reverse [of views vs] by (metis set_mset_mset)
  then show ?thesis
    unfolding Let_def r
    using py_sorted_reverse_descending [of views vs] mset_py_sorted_reverse [of views vs]
          py_sorted_reverse_stable [of views _ vs]
    by simp
qed

text \<open>The six sample candidates with a scoring request that times out.\<close>

theorem fallback_ranking_witness:
  "example_found \<noteq> [] \<and>
   fetch_scores failing_score_services example_found example_piece ''clarinet''
     = Inl (RequestException ''timed out'') \<and>
   list_all zero_scores example_found \<and>
   sorted_wrt (\<lambda>a b. views a \<ge> views b)
     (rank_by_accuracy failing_score_services example_found example_piece ''clarinet'') \<and>
   mset (rank_by_accuracy failing_score_services example_found example_piece ''clarinet'')
     = mset example_found \<and>
   list_all zero_scores
     (rank_by_accuracy failing_score_services example_found example_piece ''clarinet'')"
proof -
  have h1: "example_found \<noteq> []"
    by code_simp
  have h2: "fetch_scores failing_score_services example_found example_piece ''clarinet''
              = Inl (RequestException ''timed out'')"
    by (simp add: fetch_scores_def failing_score_services_def)
  have h3: "\<forall>v \<in> set example_found. zero_scores v"
    by (simp add: example_found_def example_video_def zero_scores_def)
  from fallback_ranking [OF h1 h2] h1 h2 h3
  show ?thesis by (simp add: Let_def list_all_iff)
qed

text \<open>
  The order is not strictly descending: two of the sample candidates have 1200 views each
  and both are returned, one after the other.
\<close>

theorem fallback_ranking_not_strict:
  "fetch_scores failing_score_services example_found example_piece ''clarinet''
     = Inl (RequestException ''timed out'') \<and>
   map views (rank_by_accuracy failing_score_services example_found example_piece ''clarinet'')
     = [900000, 1200, 1200, 300, 50, 7] \<and>
   \<not> sorted_wrt (\<lambda>a b. views a > views b)
       (rank_by_accuracy failing_score_services example_found example_piece ''clarinet'')"
proof -
  have h2: "fetch_scores failing_score_services example_found example_piece ''clarinet''
              = Inl (RequestException ''timed out'')"
    by (simp add: fetch_scores_def failing_score_services_def)
  have v: "map views (rank_by_accuracy failing_score_services example_found example_piece ''clarinet'')
             = [900000, 1200, 1200, 300, 50, 7]"
    by code_simp
  have "\<not> sorted_wrt (>) (map views
          (rank_by_accuracy failing_score_services example_found example_piece ''clarinet''))"
    unfolding v by simp
  then have "\<not> sorted_wrt (\<lambda>a b. views a > views b)
       (rank_by_accuracy failing_score_services example_found example_piece ''clarinet'')"
    by (simp add: sorted_wrt_map)
  with h2 v show ?thesis by simp
qed

subsection \<open>Score application\<close>
















subsection \<open>Deduplication across strategies\<close>

lemma add_videos_append: "add_videos (xs @ ys) all_videos = add_videos ys (add_videos xs all_videos)"
  by (induction xs arbitrary: all_videos) simp_all

lemma search_strategies_outcomes:
  "fst (search_strategies env search_terms all_videos idx) =
     add_videos (videos_met (strategy_outcomes env search_terms idx)) all_videos"
proof (induction search_terms arbitrary: all_videos idx)
  case Nil
  then show ?case by (simp add: videos_met_def)
next
  case (Cons p rest)
  obtain t s where p: "p = (t, s)" by (cases p)
  obtain r idx' where r: "search_youtube_single env t s idx = (r, idx')"
    by (cases "search_youtube_single env t s idx")
  show ?case
  proof (cases r)
    case (Inl e)
    with p r Cons.IH [of all_videos idx'] show ?thesis
      by (simp add: videos_met_def)
  next
    case (Inr found)
    with p r Cons.IH [of "add_videos found all_videos" idx'] show ?thesis
      by (simp add: videos_met_def add_videos_append)
  qed
qed

lemma add_videos_keyed:
  "(\<forall>p \<in> set all_videos. fst p = video_id (snd p)) \<Longrightarrow> distinct (map fst all_videos) \<Longrightarrow>
     (\<forall>p \<in> set (add_videos xs all_videos). fst p = video_id (snd p)) \<and>
     distinct (map fst (add_videos xs all_videos))"
proof (induction xs arbitrary: all_videos)
  case Nil
  then show ?case by simp
next
  case (Cons a xs)
  define all' where
    "all' = (if video_id a \<notin> set (map fst all_videos)
             then all_videos @ [(video_id a, a)] else all_videos)"
  have k: "\<forall>p \<in> set all'. fst p = video_id (snd p)"
    using Cons.prems(1) by (auto simp: all'_def)
  have d: "distinct (map fst all')"
    using Cons.prems(2) by (auto simp: all'_def)
  have "add_videos (a # xs) all_videos = add_videos xs all'"
    by (simp add: all'_def)
  with Cons.IH [OF k d] show ?case by simp
qed

lemma map_of_snoc:
  "map_of (all_videos @ [(k', v)]) k =
     (case map_of all_videos k of Some x \<Rightarrow> Some x | None \<Rightarrow> if k = k' then Some v else None)"
  by (induction all_videos) auto

lemma add_videos_lookup:
  "map_of (add_videos xs all_videos) k =
     (case map_of all_videos k of
        Some v \<Rightarrow> Some v
      | None \<Rightarrow> find (\<lambda>w. video_id w = k) xs)"
proof (induction xs arbitrary: all_videos)
  case Nil
  then show ?case by (simp split: option.splits)
next
  case (Cons v rest)
  show ?case
  proof (cases "video_id v \<in> set (map fst all_videos)")
    case True
    then obtain x where x: "map_of all_videos (video_id v) = Some x"
      by (metis map_of_eq_None_iff not_Some_eq set_map)
    from True have "add_videos (v # rest) all_videos = add_videos rest all_videos" by simp
    with Cons.IH [of all_videos] x show ?thesis
      by (cases "k = video_id v") (auto split: option.splits)
  next
    case False
    then have n: "map_of all_videos (video_id v) = None"
      by (simp add: map_of_eq_None_iff)
    from False have "add_videos (v # rest) all_videos
                       = add_videos rest (all_videos @ [(video_id v, v)])" by simp
    with Cons.IH [of "all_videos @ [(video_id v, v)]"] n show ?thesis
      by (cases "k = video_id v") (auto simp: map_of_snoc split: option.splits)
  qed
qed

lemma distinct_filter_fst:
  "distinct (map fst ps) \<Longrightarrow> (k, v) \<in> set ps \<Longrightarrow> filter (\<lambda>p. fst p = k) ps = [(k, v)]"
proof (induction ps)
  case Nil
  then show ?case by simp
next
  case (Cons p ps)
  show ?case
  proof (cases "p = (k, v)")
    case True
    with Cons.prems(1) have "\<forall>q \<in> set ps. fst q \<noteq> k" by force
    then have "filter (\<lambda>p. fst p = k) ps = []" by (simp add: filter_empty_conv)
    with True show ?thesis by simp
  next
    case False
    with Cons.prems(2) have in_ps: "(k, v) \<in> set ps" by simp
    then have "k \<in> fst ` set ps" by force
    with Cons.prems(1) have "fst p \<noteq> k" by auto
    with Cons.IH in_ps Cons.prems(1) show ?thesis by simp
  qed
qed

text \<open>
  Claim C5. For every run of the strategies, with \<open>met\<close> the videos that the successful
  strategies return, in strategy order and in the order each strategy returns them: the
  merged result has no identifier twice and only holds videos of \<open>met\<close>, and for every
  video \<open>w\<close> of \<open>met\<close> exactly one video of the result has the identifier of \<open>w\<close>,
  namely the first video of \<open>met\<close> with that identifier. That video is kept as it was
  built, so its strategy label is the one of the strategy that found it first.
\<close>

theorem search_youtube_simple_dedup:
  "let met = videos_met (strategy_outcomes env search_terms idx);
       found = fst (search_youtube_simple env search_terms idx)
   in distinct (map video_id found) \<and>
      set found \<subseteq> set met \<and>
      (\<forall>w. w \<in> set met \<longrightarrow>
         (\<exists>v. find (\<lambda>x. video_id x = video_id w) met = Some v \<and>
              filter (\<lambda>x. video_id x = video_id w) found = [v] \<and>
              video_id v = video_id w))"
proof -
  define met where "met = videos_met (strategy_outcomes env search_terms idx)"
  define ps where "ps = add_videos met []"
  have found: "fst (search_youtube_simple env search_terms idx) = map snd ps"
  proof -
    obtain a b where ab: "search_strategies env search_terms [] idx = (a, b)"
      by (cases "search_strategies env search_terms [] idx")
    with search_strategies_outcomes [of env search_terms "[]" idx]
    have "a = ps" by (simp add: ps_def met_def)
    with ab show ?thesis by (simp add: search_youtube_simple_def)
  qed
  have keyed: "\<forall>p \<in> set ps. fst p = video_id (snd p)" and dist: "distinct (map fst ps)"
    using add_videos_keyed [of "[]" met] by (simp_all add: ps_def)
  have ids: "map video_id (map snd ps) = map fst ps"
    using keyed by simp
  have look: "map_of ps k = find (\<lambda>w. video_id w = k) met" for k
    using add_videos_lookup [of met "[]" k] by (simp add: ps_def)
  have d: "distinct (map video_id (map snd ps))"
    using dist by (simp only: ids)
  have sub: "set (map snd ps) \<subseteq> set met"
  proof
    fix v assume "v \<in> set (map snd ps)"
    then obtain k where kv: "(k, v) \<in> set ps" by auto
    with dist have "map_of ps k = Some v" by simp
    with look have "find (\<lambda>w. video_id w = k) met = Some v" by simp
    then show "v \<in> set met" by (auto simp: find_Some_iff)
  qed
  have first: "\<exists>v. find (\<lambda>x. video_id x = video_id w) met = Some v \<and>
              filter (\<lambda>x. video_id x = video_id w) (map snd ps) = [v] \<and>
              video_id v = video_id w" if w: "w \<in> set met" for w
  proof -
    from w have "find (\<lambda>x. video_id x = video_id w) met \<noteq> None"
      by (auto simp: find_None_iff)
    then obtain v where v: "find (\<lambda>x. video_id x = video_id w) met = Some v" by blast
    then have idv: "video_id v = video_id w" by (auto simp: find_Some_iff)
    from v look have "map_of ps (video_id w) = Some v" by simp
    then have "(video_id w, v) \<in> set ps" by (rule map_of_SomeD)
    from distinct_filter_fst [OF dist this]
    have f: "filter (\<lambda>p. fst p = video_id w) ps = [(video_id w, v)]" .
    have "filter (\<lambda>x. video_id x = video_id w) (map snd ps)
            = map snd (filter (\<lambda>p. video_id (snd p) = video_id w) ps)"
      by (simp add: filter_map comp_def)
    also have "filter (\<lambda>p. video_id (snd p) = video_id w) ps = filter (\<lambda>p. fst p = video_id w) ps"
      using keyed by (intro filter_cong) auto
    finally have "filter (\<lambda>x. video_id x = video_id w) (map snd ps) = [v]"
      using f by simp
    with v idv show ?thesis by blast
  qed
  show ?thesis
    unfolding Let_def met_def [symmetric] found
    using d sub first by blast
qed

text \<open>
  In the sample environment both strategies return the same six videos; the one kept for
  the first identifier is the one labelled \<open>basic\<close>.
\<close>

theorem search_youtube_simple_dedup_witness:
  "example_video ''aaaaaaaaaaa'' ''ensemble''
     \<in> set (videos_met (strategy_outcomes example_services
               (create_simple_search_terms example_piece ''clarinet'') 0)) \<and>
   filter (\<lambda>x. video_id x = ''aaaaaaaaaaa'')
     (fst (search_youtube_simple example_services
             (create_simple_search_terms example_piece ''clarinet'') 0))
     = [example_video ''aaaaaaaaaaa'' ''basic'']"
proof -
  let ?terms = "create_simple_search_terms example_piece ''clarinet''"
  have m: "example_video ''aaaaaaaaaaa'' ''ensemble''
             \<in> set (videos_met (strategy_outcomes example_services ?terms 0))"
    by code_simp
  have f: "find (\<lambda>x. video_id x = video_id (example_video ''aaaaaaaaaaa'' ''ensemble''))
             (videos_met (strategy_outcomes example_services ?terms 0))
           = Some (example_video ''aaaaaaaaaaa'' ''basic'')"
    by code_simp
  have i: "video_id (example_video ''aaaaaaaaaaa'' ''ensemble'') = ''aaaaaaaaaaa''"
    by (simp add: example_video_def)
  note T = search_youtube_simple_dedup [of example_services ?terms 0, unfolded Let_def]
  from T m obtain v where
    "find (\<lambda>x. video_id x = video_id (example_video ''aaaaaaaaaaa'' ''ensemble''))
       (videos_met (strategy_outcomes example_services ?terms 0)) = Some v"
    "filter (\<lambda>x. video_id x = video_id (example_video ''aaaaaaaaaaa'' ''ensemble''))
       (fst (search_youtube_simple example_services ?terms 0)) = [v]"
    by blast
  with f i m show ?thesis by simp
qed

subsection \<open>Search statuses\<close>

lemma search_attempts_non_success:
  assumes "idx < length (YOUTUBE_API_KEYS env)"
    and "YOUTUBE_API_KEYS env ! idx \<noteq> []"
    and "youtube_search env query (YOUTUBE_API_KEYS env ! idx) = SearchStatus code items"
    and "code \<noteq> 200"
  shows "search_attempts env query strategy (attempt # rest) idx =
           search_attempts env query strategy rest ((idx + 1) mod length (YOUTUBE_API_KEYS env))"
proof -
  from assms(1) have ne: "YOUTUBE_API_KEYS env \<noteq> []" by auto
  with assms(1)
  have key: "get_next_youtube_api_key (YOUTUBE_API_KEYS env) idx =
               (Inr (Some (YOUTUBE_API_KEYS env ! idx)), (idx + 1) mod length (YOUTUBE_API_KEYS env))"
    by (simp add: get_next_youtube_api_key_def)
  show ?thesis
    using assms(2,3,4) by (simp add: key)
qed

lemma search_attempts_exhausted:
  assumes all: "\<forall>k \<in> set (YOUTUBE_API_KEYS env).
                  k \<noteq> [] \<and> (\<exists>c its. youtube_search env query k = SearchStatus c its \<and> c \<noteq> 200)"
  shows "idx < length (YOUTUBE_API_KEYS env) \<Longrightarrow>
           search_attempts env query strategy attempts idx =
             (Inr [], (idx + length attempts) mod length (YOUTUBE_API_KEYS env))"
proof (induction attempts arbitrary: idx)
  case Nil
  then show ?case by simp
next
  case (Cons attempt rest)
  let ?n = "length (YOUTUBE_API_KEYS env)"
  from Cons.prems have "YOUTUBE_API_KEYS env ! idx \<in> set (YOUTUBE_API_KEYS env)" by simp
  with all obtain c its where k: "YOUTUBE_API_KEYS env ! idx \<noteq> []"
    and r: "youtube_search env query (YOUTUBE_API_KEYS env ! idx) = SearchStatus c its"
    and c: "c \<noteq> 200"
    by blast
  from Cons.prems have "0 < ?n" by arith
  then have lt: "(idx + 1) mod ?n < ?n"
    by (rule mod_less_divisor)
  have "search_attempts env query strategy (attempt # rest) idx =
          search_attempts env query strategy rest ((idx + 1) mod ?n)"
    using Cons.prems k r c by (rule search_attempts_non_success)
  also have "\<dots> = (Inr [], ((idx + 1) mod ?n + length rest) mod ?n)"
    using lt by (rule Cons.IH)
  also have "((idx + 1) mod ?n + length rest) mod ?n = (idx + length (attempt # rest)) mod ?n"
  proof -
    have "((idx + 1) mod ?n + length rest) mod ?n = ((idx + 1) + length rest) mod ?n"
      by (rule mod_add_left_eq)
    also have "(idx + 1) + length rest = idx + length (attempt # rest)"
      by simp
    finally show ?thesis .
  qed
  finally show ?case .
qed

text \<open>
  Claim C6, as the code has it. When the search answers the current credential with a
  status other than 200 (403, 429 or any other), the loop goes on to the next attempt
  with the next credential of the pool; a status outside 403 and 429 is handled exactly
  like those two. The search of the strategy gives zero results, and no exception, once
  every credential of the pool has been answered with a status other than 200; the
  rotator is then back at the index it started from.
\<close>

theorem search_other_status_tries_next_key:
  assumes "idx < length (YOUTUBE_API_KEYS env)"
    and "YOUTUBE_API_KEYS env ! idx \<noteq> []"
    and "youtube_search env query (YOUTUBE_API_KEYS env ! idx) = SearchStatus code items"
    and "code \<noteq> 200"
  shows "search_attempts env query strategy (attempt # rest) idx =
           search_attempts env query strategy rest ((idx + 1) mod length (YOUTUBE_API_KEYS env)) \<and>
         ((\<forall>k \<in> set (YOUTUBE_API_KEYS env).
              k \<noteq> [] \<and> (\<exists>c its. youtube_search env query k = SearchStatus c its \<and> c \<noteq> 200))
          \<longrightarrow> search_youtube_single env query strategy idx = (Inr [], idx))"
proof
  show "search_attempts env query strategy (attempt # rest) idx =
           search_attempts env query strategy rest ((idx + 1) mod length (YOUTUBE_API_KEYS env))"
    using assms by (rule search_attempts_non_success)
next
  show "(\<forall>k \<in> set (YOUTUBE_API_KEYS env).
              k \<noteq> [] \<and> (\<exists>c its. youtube_search env query k = SearchStatus c its \<and> c \<noteq> 200))
          \<longrightarrow> search_youtube_single env query strategy idx = (Inr [], idx)"
  proof
    assume all: "\<forall>k \<in> set (YOUTUBE_API_KEYS env).
              k \<noteq> [] \<and> (\<exists>c its. youtube_search env query k = SearchStatus c its \<and> c \<noteq> 200)"
    from search_attempts_exhausted [OF all assms(1), of strategy "[0..<length (YOUTUBE_API_KEYS env)]"]
         assms(1)
    show "search_youtube_single env query strategy idx = (Inr [], idx)"
      by (simp add: search_youtube_single_def)
  qed
qed

text \<open>Two credentials, answered with 500 and with 403.\<close>

theorem search_other_status_tries_next_key_witness:
  "youtube_search unavailable_search_services ''Solo de concours Messager''
     (YOUTUBE_API_KEYS unavailable_search_services ! 0) = SearchStatus 500 [] \<and>
   search_attempts unavailable_search_services ''Solo de concours Messager'' ''basic'' [0, 1] 0
     = search_attempts unavailable_search_services ''Solo de concours Messager'' ''basic'' [1] 1 \<and>
   search_youtube_single unavailable_search_services ''Solo de concours Messager'' ''basic'' 0
     = (Inr [], 0)"
proof -
  have h1: "0 < length (YOUTUBE_API_KEYS unavailable_search_services)"
    by code_simp
  have h2: "YOUTUBE_API_KEYS unavailable_search_services ! 0 \<noteq> []"
    by code_simp
  have h3: "youtube_search unavailable_search_services ''Solo de concours Messager''
              (YOUTUBE_API_KEYS unavailable_search_services ! 0) = SearchStatus 500 []"
    by code_simp
  have h4: "(500::nat) \<noteq> 200"
    by simp
  have n: "(0 + 1) mod length (YOUTUBE_API_KEYS unavailable_search_services) = 1"
    by code_simp
  have all: "\<forall>k \<in> set (YOUTUBE_API_KEYS unavailable_search_services).
               k \<noteq> [] \<and> (\<exists>c its. youtube_search unavailable_search_services
                               ''Solo de concours Messager'' k = SearchStatus c its \<and> c \<noteq> 200)"
    by (simp add: unavailable_search_services_def example_services_def)
  from search_other_status_tries_next_key
         [OF h1 h2 h3 h4, of "''basic''" 0 "[1]"] all h3 n
  show ?thesis by simp
qed

text \<open>
  The search is not abandoned at the first such status: with 500 for the first
  credential and 200 for the second, the second credential is tried and its result is
  returned.
\<close>

theorem search_other_status_not_abandoned:
  "youtube_search server_error_services ''Solo de concours Messager''
     (YOUTUBE_API_KEYS server_error_services ! 0) = SearchStatus 500 [] \<and>
   search_youtube_single server_error_services ''Solo de concours Messager'' ''basic'' 0
     = (Inr [example_video ''aaaaaaaaaaa'' ''basic''], 0) \<and>
   fst (search_youtube_single server_error_services ''Solo de concours Messager'' ''basic'' 0)
     \<noteq> Inr []"
  by code_simp

subsection \<open>Metadata batches\<close>








end
